theory Spec2Isabelle
  imports
    Complex_Main
    "HOL-Library.AList"
    "HOL-Library.Multiset"
    "HOL-Library.Product_Lexorder"
begin

section \<open>SprintTap room server (server.py)\<close>

text \<open>
  The server keeps one process-wide dictionary \<^verbatim>\<open>rooms\<close> and runs one coroutine
  \<^verbatim>\<open>ws_room\<close> per accepted websocket, plus one task \<^verbatim>\<open>end_round_after\<close> per
  started round. The embedding follows the source function by function:
  \<^item> Python dictionaries are association lists in insertion order (the order is observable:
    \<^verbatim>\<open>sorted\<close> is stable and \<^verbatim>\<open>list(d.keys())\<close> is broadcast);
  \<^item> mutation of \<^verbatim>\<open>rooms\<close> is explicit state passing, every function returns the new
    dictionary;
  \<^item> what a function sends, broadcasts or schedules is returned as a list of effects, in
    program order;
  \<^item> an exception that leaves the message loop is a value of the loop's outcome;
  \<^item> Python floats are modelled as reals (finite values, exact arithmetic), Python ints as
    integers, \<^verbatim>\<open>now()\<close> as an argument.
  Each of \<^verbatim>\<open>ws_room\<close>'s loop iterations, and each call of \<^verbatim>\<open>finalize_round\<close>, is
  modelled as running without another coroutine in between.
\<close>

subsection \<open>Dictionaries\<close>

type_synonym ('k, 'v) dict = "('k \<times> 'v) list"

definition dict_get :: "('k, 'v) dict \<Rightarrow> 'k \<Rightarrow> 'v option" where
  "dict_get d k = map_of d k"

text \<open>\<^verbatim>\<open>d[k] = v\<close>: an existing key keeps its position, a new key goes last.\<close>

definition dict_set :: "('k, 'v) dict \<Rightarrow> 'k \<Rightarrow> 'v \<Rightarrow> ('k, 'v) dict" where
  "dict_set d k v = AList.update k v d"

text \<open>\<^verbatim>\<open>d.pop(k, None)\<close>, the popped value dropped.\<close>

definition dict_pop :: "('k, 'v) dict \<Rightarrow> 'k \<Rightarrow> ('k, 'v) dict" where
  "dict_pop d k = AList.delete k d"

definition dict_keys :: "('k, 'v) dict \<Rightarrow> 'k list" where
  "dict_keys d = map fst d"

definition dict_values :: "('k, 'v) dict \<Rightarrow> 'v list" where
  "dict_values d = map snd d"

subsection \<open>Decoded JSON and Python's conversions\<close>

datatype json =
    JNull
  | JBool bool
  | JInt int
  | JFloat real
  | JStr string
  | JArr "json list"
  | JObj "(string \<times> json) list"

datatype py_error = JSONDecodeError | AttributeError | TypeError | ValueError

text \<open>
  A received text frame, seen through \<^verbatim>\<open>json.loads\<close>: either the text is not JSON and
  \<^verbatim>\<open>json.loads\<close> raises, or it decodes to a value. A decoded object lists its keys once,
  in order.
\<close>

datatype frame = Not_json | Json json

fun json_loads :: "frame \<Rightarrow> py_error + json" where
  "json_loads Not_json = Inl JSONDecodeError"
| "json_loads (Json v) = Inr v"

text \<open>
  \<^verbatim>\<open>int(s)\<close> and \<^verbatim>\<open>float(s)\<close> of a string \<^verbatim>\<open>s\<close> parse it with Python's own grammar;
  the two parsers are parameters of the model (\<open>None\<close>: the parser raises ValueError).
\<close>

record conv =
  int_of_str :: "string \<Rightarrow> int option"
  float_of_str :: "string \<Rightarrow> real option"

text \<open>\<^verbatim>\<open>msg.get(key, default)\<close>: only a dict has \<^verbatim>\<open>get\<close>.\<close>

fun msg_get :: "json \<Rightarrow> string \<Rightarrow> json option \<Rightarrow> py_error + json option" where
  "msg_get (JObj kvs) key dflt =
     (case dict_get kvs key of None \<Rightarrow> Inr dflt | Some v \<Rightarrow> Inr (Some v))"
| "msg_get _ key dflt = Inl AttributeError"

text \<open>\<^verbatim>\<open>int(x)\<close>; a float is truncated towards zero.\<close>

fun py_int :: "conv \<Rightarrow> json option \<Rightarrow> py_error + int" where
  "py_int cv (Some (JInt i)) = Inr i"
| "py_int cv (Some (JBool b)) = Inr (if b then 1 else 0)"
| "py_int cv (Some (JFloat r)) = Inr (if 0 \<le> r then \<lfloor>r\<rfloor> else \<lceil>r\<rceil>)"
| "py_int cv (Some (JStr s)) =
     (case int_of_str cv s of None \<Rightarrow> Inl ValueError | Some i \<Rightarrow> Inr i)"
| "py_int cv _ = Inl TypeError"

text \<open>\<^verbatim>\<open>float(x)\<close>.\<close>

fun py_float :: "conv \<Rightarrow> json option \<Rightarrow> py_error + real" where
  "py_float cv (Some (JFloat r)) = Inr r"
| "py_float cv (Some (JInt i)) = Inr (of_int i)"
| "py_float cv (Some (JBool b)) = Inr (if b then 1 else 0)"
| "py_float cv (Some (JStr s)) =
     (case float_of_str cv s of None \<Rightarrow> Inl ValueError | Some r \<Rightarrow> Inr r)"
| "py_float cv _ = Inl TypeError"

text \<open>
  \<^verbatim>\<open>for t_local in timestamps\<close>: the items the loop visits. A list gives its elements, a
  string its characters, a dict its keys; anything else is not iterable.
\<close>

fun py_iter :: "json option \<Rightarrow> py_error + json list" where
  "py_iter (Some (JArr xs)) = Inr xs"
| "py_iter (Some (JStr s)) = Inr (map (\<lambda>c. JStr [c]) s)"
| "py_iter (Some (JObj kvs)) = Inr (map (\<lambda>kv. JStr (fst kv)) kvs)"
| "py_iter _ = Inl TypeError"

subsection \<open>Rooms\<close>

type_synonym ws = nat

record result =
  reported :: int
  validated :: int
  offset :: real

text \<open>An entry of a ranking: \<^verbatim>\<open>{"user": u, "validated": v, "reported": r}\<close> as \<open>(u, v, r)\<close>.\<close>

type_synonym rank_entry = "string \<times> int \<times> int"

record room =
  clients :: "(string, ws) dict"
  results :: "(string, result) dict"
  start_time :: "real option"
  duration :: int
  last_ranking :: "rank_entry list option"

type_synonym rooms = "(string, room) dict"

datatype out_msg =
    Presence "string list"
  | Timesync_resp real
  | Room_info "string list" "real option" int
  | Start real int
  | Partial_result string int
  | Round_end "rank_entry list"
  | Error string

text \<open>
  \<open>Send_text w m\<close>: \<^verbatim>\<open>websocket.send_text\<close> on the handler's own socket.
  \<open>Broadcast ws m\<close>: one call of \<^verbatim>\<open>broadcast\<close> that found the room, with the snapshot
  \<^verbatim>\<open>list(room["clients"].values())\<close> it sends to, best effort.
  \<open>Create_task r t\<close>: \<^verbatim>\<open>asyncio.create_task(end_round_after(r, t))\<close>.
\<close>

datatype effect =
    Send_text ws out_msg
  | Broadcast "ws list" out_msg
  | Create_task string real

definition broadcast :: "rooms \<Rightarrow> string \<Rightarrow> out_msg \<Rightarrow> effect list" where
  "broadcast rms room_id message =
     (case dict_get rms room_id of
        None \<Rightarrow> []
      | Some room \<Rightarrow> [Broadcast (dict_values (clients room)) message])"

subsection \<open>finalize\_round\<close>

text \<open>Lines 139 to 141: every client without a result gets the zero result, in client order.\<close>

definition zero_result :: result where
  "zero_result = \<lparr>reported = 0, validated = 0, offset = 0\<rparr>"

fun fill_missing :: "string list \<Rightarrow> (string, result) dict \<Rightarrow> (string, result) dict" where
  "fill_missing [] res = res"
| "fill_missing (user # users) res =
     fill_missing users
       (if dict_get res user = None then dict_set res user zero_result else res)"

text \<open>Lines 143 to 146; \<^verbatim>\<open>sorted\<close> is stable, and so is \<open>sort_key\<close>.\<close>

definition rank_key :: "rank_entry \<Rightarrow> int \<times> int" where
  "rank_key x = (- fst (snd x), - snd (snd x))"

definition build_ranking :: "(string, result) dict \<Rightarrow> rank_entry list" where
  "build_ranking res =
     sort_key rank_key (map (\<lambda>(u, r). (u, validated r, reported r)) res)"

definition finalize_round :: "rooms \<Rightarrow> string \<Rightarrow> rooms \<times> effect list" where
  "finalize_round rms room_id =
     (case dict_get rms room_id of
        None \<Rightarrow> (rms, [])
      | Some room \<Rightarrow>
          let res = fill_missing (dict_keys (clients room)) (results room);
              ranking = build_ranking res;
              room1 = room\<lparr>results := res, last_ranking := Some ranking\<rparr>;
              rms1 = dict_set rms room_id room1;
              sent = broadcast rms1 room_id (Round_end ranking);
              room2 = room1\<lparr>start_time := None, results := []\<rparr>
          in (dict_set rms1 room_id room2, sent))"

text \<open>\<^verbatim>\<open>end_round_after\<close>, once its sleep is over.\<close>

definition end_round_after :: "rooms \<Rightarrow> string \<Rightarrow> rooms \<times> effect list" where
  "end_round_after rms room_id = finalize_round rms room_id"

subsection \<open>ws\_room\<close>

definition new_room :: room where
  "new_room = \<lparr>clients = [], results = [], start_time = None, duration = 15,
     last_ranking = None\<rparr>"

text \<open>Lines 50 to 57: accept, \<^verbatim>\<open>setdefault\<close>, register, presence.\<close>

definition ws_accept :: "rooms \<Rightarrow> string \<Rightarrow> string \<Rightarrow> ws \<Rightarrow> rooms \<times> effect list" where
  "ws_accept rms room_id username websocket =
     (let room = (case dict_get rms room_id of None \<Rightarrow> new_room | Some r \<Rightarrow> r);
          room1 = room\<lparr>clients := dict_set (clients room) username websocket\<rparr>;
          rms1 = dict_set rms room_id room1
      in (rms1, broadcast rms1 room_id (Presence (dict_keys (clients room1)))))"

text \<open>Lines 118 to 122: the handler of \<^verbatim>\<open>WebSocketDisconnect\<close>.\<close>

definition ws_disconnect :: "rooms \<Rightarrow> string \<Rightarrow> string \<Rightarrow> rooms \<times> effect list" where
  "ws_disconnect rms room_id username =
     (case dict_get rms room_id of
        None \<Rightarrow> (rms, [])
      | Some room \<Rightarrow>
          let room1 = room\<lparr>clients := dict_pop (clients room) username,
                            results := dict_pop (results room) username\<rparr>;
              rms1 = dict_set rms room_id room1
          in (rms1, broadcast rms1 room_id (Presence (dict_keys (clients room1)))))"

text \<open>Lines 78 to 88.\<close>

definition request_start :: "rooms \<Rightarrow> string \<Rightarrow> real \<Rightarrow> rooms \<times> effect list" where
  "request_start rms room_id now =
     (case dict_get rms room_id of
        None \<Rightarrow> (rms, [])
      | Some room \<Rightarrow>
          let lead = 5;
              start = now + lead;
              room1 = room\<lparr>start_time := Some start, results := []\<rparr>;
              rms1 = dict_set rms room_id room1
          in (rms1,
              broadcast rms1 room_id (Start start (duration room1)) @
              [Create_task room_id (start + of_int (duration room1) + 2)]))"

text \<open>Lines 102 to 108: the validation loop, \<open>valid\<close> its counter.\<close>

fun count_valid :: "conv \<Rightarrow> real \<Rightarrow> real \<Rightarrow> real \<Rightarrow> json list \<Rightarrow> int \<Rightarrow> py_error + int" where
  "count_valid cv start end client_offset [] valid = Inr valid"
| "count_valid cv start end client_offset (t_local # rest) valid =
     (case py_float cv (Some t_local) of
        Inl e \<Rightarrow> Inl e
      | Inr t \<Rightarrow>
          let t_server = t + client_offset
          in count_valid cv start end client_offset rest
               (if t_server \<ge> start \<and> t_server \<le> end then valid + 1 else valid))"

text \<open>
  Lines 94, 103 and 104: a round is active when \<^verbatim>\<open>start_time\<close> is set, and its window
  is \<^verbatim>\<open>start = room["start_time"]\<close>, \<^verbatim>\<open>end = start + room["duration"]\<close>.
\<close>

definition round_window :: "room \<Rightarrow> (real \<times> real) option" where
  "round_window room =
     (case start_time room of
        None \<Rightarrow> None
      | Some start \<Rightarrow> Some (start, start + of_int (duration room)))"

text \<open>
  Lines 98 to 110 for the window \<open>(start, end)\<close>: the three fields are converted, the
  timestamps counted, the result stored under the handler's username. The room comes back
  with the count; an exception leaves the room as it was.
\<close>

definition store_result ::
  "conv \<Rightarrow> room \<Rightarrow> real \<Rightarrow> real \<Rightarrow> string \<Rightarrow> json \<Rightarrow> py_error + (room \<times> int)" where
  "store_result cv room start end username msg =
     (case msg_get msg ''count'' (Some (JInt 0)) of
        Inl e \<Rightarrow> Inl e
      | Inr c \<Rightarrow>
     (case py_int cv c of
        Inl e \<Rightarrow> Inl e
      | Inr client_count \<Rightarrow>
     (case msg_get msg ''offset'' (Some (JFloat 0)) of
        Inl e \<Rightarrow> Inl e
      | Inr off \<Rightarrow>
     (case py_float cv off of
        Inl e \<Rightarrow> Inl e
      | Inr client_offset \<Rightarrow>
     (case msg_get msg ''timestamps'' (Some (JArr [])) of
        Inl e \<Rightarrow> Inl e
      | Inr timestamps \<Rightarrow>
     (case py_iter timestamps of
        Inl e \<Rightarrow> Inl e
      | Inr items \<Rightarrow>
     (case count_valid cv start end client_offset items 0 of
        Inl e \<Rightarrow> Inl e
      | Inr valid \<Rightarrow>
          Inr (room\<lparr>results := dict_set (results room) username
                     \<lparr>reported = client_count, validated = valid,
                      offset = client_offset\<rparr>\<rparr>,
               valid))))))))"

text \<open>
  How one iteration of the loop ends: the loop goes on, or an exception other than
  \<^verbatim>\<open>WebSocketDisconnect\<close> leaves \<^verbatim>\<open>ws_room\<close> (no handler catches it: the coroutine ends
  and nothing is cleaned up).
\<close>

datatype outcome = Continue | Raised py_error

text \<open>Lines 90 to 115, the branch of a \<^verbatim>\<open>result\<close> message.\<close>

definition submit_result ::
  "conv \<Rightarrow> rooms \<Rightarrow> string \<Rightarrow> string \<Rightarrow> ws \<Rightarrow> json \<Rightarrow> rooms \<times> effect list \<times> outcome" where
  "submit_result cv rms room_id username websocket msg =
     (case dict_get rms room_id of
        None \<Rightarrow> (rms, [], Continue)
      | Some room \<Rightarrow>
     (case round_window room of
        None \<Rightarrow> (rms, [Send_text websocket (Error ''no active round'')], Continue)
      | Some (start, end) \<Rightarrow>
     (case store_result cv room start end username msg of
        Inl e \<Rightarrow> (rms, [], Raised e)
      | Inr (room1, valid) \<Rightarrow>
          let rms1 = dict_set rms room_id room1;
              sent = broadcast rms1 room_id (Partial_result username valid)
          in if length (results room1) = length (clients room1)
             then let (rms2, sent2) = finalize_round rms1 room_id
                  in (rms2, sent @ sent2, Continue)
             else (rms1, sent, Continue))))"

text \<open>
  Lines 60 to 115, one iteration of the message loop of the handler of \<open>username\<close> on
  \<open>websocket\<close> in room \<open>room_id\<close>, for a received text frame. The handler's variable
  \<^verbatim>\<open>room\<close> is the registry's entry for \<open>room_id\<close>: \<^verbatim>\<open>ws_accept\<close> put it there and nothing
  removes a room, so the lookups below find it.
\<close>

definition ws_message ::
  "conv \<Rightarrow> rooms \<Rightarrow> string \<Rightarrow> string \<Rightarrow> ws \<Rightarrow> real \<Rightarrow> frame \<Rightarrow> rooms \<times> effect list \<times> outcome" where
  "ws_message cv rms room_id username websocket now raw =
     (case json_loads raw of
        Inl e \<Rightarrow> (rms, [], Raised e)
      | Inr msg \<Rightarrow>
     (case msg_get msg ''type'' None of
        Inl e \<Rightarrow> (rms, [], Raised e)
      | Inr typ \<Rightarrow>
          if typ = Some (JStr ''timesync'')
          then (rms, [Send_text websocket (Timesync_resp now)], Continue)
          else if typ = Some (JStr ''join'')
          then (case dict_get rms room_id of
                  None \<Rightarrow> (rms, [], Continue)
                | Some room \<Rightarrow>
                    (rms,
                     [Send_text websocket
                        (Room_info (dict_keys (clients room)) (start_time room) (duration room))],
                     Continue))
          else if typ = Some (JStr ''request_start'')
          then (let (rms1, sent) = request_start rms room_id now in (rms1, sent, Continue))
          else if typ = Some (JStr ''result'')
          then submit_result cv rms room_id username websocket msg
          else (rms, [], Continue)))"

subsection \<open>Runs of the server\<close>

text \<open>
  What can happen to the server: a websocket is accepted, a handler receives a text frame
  (with the clock reading of that moment), a handler's socket disconnects, or the timer of
  a started round fires.
\<close>

datatype event =
    Accept string string ws
  | Receive string string ws real frame
  | Disconnect string string ws
  | Timer string

fun step :: "conv \<Rightarrow> rooms \<Rightarrow> event \<Rightarrow> rooms \<times> effect list" where
  "step cv rms (Accept room_id username websocket) = ws_accept rms room_id username websocket"
| "step cv rms (Receive room_id username websocket now raw) =
     (let (rms1, sent, out) = ws_message cv rms room_id username websocket now raw
      in (rms1, sent))"
| "step cv rms (Disconnect room_id username websocket) = ws_disconnect rms room_id username"
| "step cv rms (Timer room_id) = end_round_after rms room_id"

fun run :: "conv \<Rightarrow> rooms \<Rightarrow> event list \<Rightarrow> rooms \<times> effect list" where
  "run cv rms [] = (rms, [])"
| "run cv rms (ev # evs) =
     (let (rms1, sent) = step cv rms ev;
          (rms2, sent2) = run cv rms1 evs
      in (rms2, sent @ sent2))"

subsection \<open>Fixtures for concrete runs\<close>

text \<open>String parsers that accept no string; the concrete runs below pass numbers only.\<close>

definition no_str_conv :: conv where
  "no_str_conv = \<lparr>int_of_str = Map.empty, float_of_str = Map.empty\<rparr>"

definition request_start_msg :: frame where
  "request_start_msg = Json (JObj [(''type'', JStr ''request_start'')])"

definition result_msg :: "int \<Rightarrow> real list \<Rightarrow> real \<Rightarrow> frame" where
  "result_msg c ts off =
     Json (JObj [(''type'', JStr ''result''), (''count'', JInt c),
                 (''timestamps'', JArr (map JFloat ts)), (''offset'', JFloat off)])"

text \<open>A room in a round started at 100: alice and bob are connected, bob has submitted.\<close>

definition round_room :: room where
  "round_room =
     \<lparr>clients = [(''alice'', 1), (''bob'', 2)],
      results = [(''bob'', \<lparr>reported = 4, validated = 2, offset = 0\<rparr>)],
      start_time = Some 100, duration = 15, last_ranking = None\<rparr>"

text \<open>A room with ties: ann, ben and cat validated 2, ben and cat also reported 5.\<close>

definition ranked_room :: room where
  "ranked_room =
     \<lparr>clients = [(''ann'', 1), (''ben'', 2), (''cat'', 3), (''dan'', 4), (''eve'', 5)],
      results = [(''ann'', \<lparr>reported = 1, validated = 2, offset = 0\<rparr>),
                 (''ben'', \<lparr>reported = 5, validated = 2, offset = 1\<rparr>),
                 (''cat'', \<lparr>reported = 5, validated = 2, offset = 0\<rparr>),
                 (''dan'', \<lparr>reported = 0, validated = 7, offset = 0\<rparr>)],
      start_time = Some 100, duration = 15, last_ranking = None\<rparr>"

section \<open>Properties\<close>

subsection \<open>Dictionaries\<close>

lemma dict_get_set:
  "dict_get (dict_set d k v) k' = (if k' = k then Some v else dict_get d k')"
  by (simp add: dict_get_def dict_set_def update_conv')

lemma dict_get_pop:
  "dict_get (dict_pop d k) k' = (if k' = k then None else dict_get d k')"
  by (simp add: dict_get_def dict_pop_def delete_conv')

lemma dict_get_SomeD: "dict_get d k = Some v \<Longrightarrow> (k, v) \<in> set d"
  by (simp add: dict_get_def map_of_SomeD)

lemma dict_set_set: "dict_set (dict_set d k v) k v' = dict_set d k v'"
  by (simp add: dict_set_def)

lemma dict_keys_set: "set (dict_keys (dict_set d k v)) = insert k (set (dict_keys d))"
  using dom_update [of k v d] by (simp add: dict_keys_def dict_set_def)

lemma dict_keys_pop: "set (dict_keys (dict_pop d k)) = set (dict_keys d) - {k}"
  by (auto simp: dict_keys_def dict_pop_def delete_keys)

lemma distinct_dict_set: "distinct (dict_keys d) \<Longrightarrow> distinct (dict_keys (dict_set d k v))"
  by (simp add: dict_keys_def dict_set_def distinct_update)

lemma distinct_dict_pop: "distinct (dict_keys d) \<Longrightarrow> distinct (dict_keys (dict_pop d k))"
  by (simp add: dict_keys_def dict_pop_def distinct_delete)

lemma keys_within_length:
  assumes "distinct (dict_keys a)" and "set (dict_keys a) \<subseteq> set (dict_keys b)"
  shows "length a \<le> length b"
proof -
  have "length a = card (set (dict_keys a))"
    using distinct_card [OF assms(1)] by (simp add: dict_keys_def)
  also have "\<dots> \<le> card (set (dict_keys b))"
    using assms(2) by (simp add: card_mono)
  also have "\<dots> \<le> length b"
    using card_length [of "dict_keys b"] by (simp add: dict_keys_def)
  finally show ?thesis .
qed

text \<open>The definitions a concrete run unfolds.\<close>

lemmas server_defs =
  ws_accept_def ws_disconnect_def ws_message_def submit_result_def store_result_def
  request_start_def round_window_def finalize_round_def end_round_after_def broadcast_def
  build_ranking_def rank_key_def zero_result_def new_room_def no_str_conv_def
  request_start_msg_def result_msg_def
  dict_get_def dict_set_def dict_pop_def dict_keys_def dict_values_def Let_def less_eq_prod_def

subsection \<open>The validation loop\<close>


lemma count_valid_bounds:
  "count_valid cv start end off items n = Inr v \<Longrightarrow> n \<le> v \<and> v \<le> n + int (length items)"
proof (induction items arbitrary: n)
  case Nil
  then show ?case by simp
next
  case (Cons j items)
  then obtain t where t: "py_float cv (Some j) = Inr t"
    by (auto split: sum.splits)
  let ?n = "if start \<le> t + off \<and> t + off \<le> end then n + 1 else n"
  from Cons.prems t have "count_valid cv start end off items ?n = Inr v"
    by (simp add: Let_def)
  from Cons.IH [OF this] show ?case
    by (simp split: if_splits)
qed

lemma store_result_InrD:
  "store_result cv room start end username msg = Inr (room1, valid) \<Longrightarrow>
     \<exists>r. room1 = room\<lparr>results := dict_set (results room) username r\<rparr>"
  by (auto simp: store_result_def split: sum.splits)

subsection \<open>Filling in and ranking\<close>

lemma fill_missing_keeps:
  "dict_get res u = Some r \<Longrightarrow> dict_get (fill_missing us res) u = Some r"
proof (induction us arbitrary: res)
  case Nil
  then show ?case by simp
next
  case (Cons a us)
  from Cons.prems
  have "dict_get (if dict_get res a = None then dict_set res a zero_result else res) u = Some r"
    by (auto simp: dict_get_set)
  then show ?case
    using Cons.IH by simp
qed

lemma fill_missing_adds:
  "u \<in> set us \<Longrightarrow> dict_get res u = None \<Longrightarrow> dict_get (fill_missing us res) u = Some zero_result"
proof (induction us arbitrary: res)
  case Nil
  then show ?case by simp
next
  case (Cons a us)
  show ?case
  proof (cases "a = u")
    case True
    with Cons.prems show ?thesis
      by (simp add: fill_missing_keeps dict_get_set)
  next
    case False
    with Cons.prems have "u \<in> set us" by simp
    moreover from False Cons.prems
    have "dict_get (if dict_get res a = None then dict_set res a zero_result else res) u = None"
      by (simp add: dict_get_set)
    ultimately show ?thesis
      using Cons.IH by simp
  qed
qed

lemma build_ranking_member:
  "dict_get res u = Some r \<Longrightarrow> (u, validated r, reported r) \<in> set (build_ranking res)"
  by (force simp: build_ranking_def dest: dict_get_SomeD)

lemma rank_key_le:
  "rank_key a \<le> rank_key b \<longleftrightarrow>
     (case a of (u, v, r) \<Rightarrow> case b of (u', v', r') \<Rightarrow> v > v' \<or> (v = v' \<and> r \<ge> r'))"
  by (auto simp: rank_key_def less_eq_prod_def split: prod.splits)

lemma build_ranking_sorted:
  "sorted_wrt (\<lambda>a b. case a of (u, v, r) \<Rightarrow> case b of (u', v', r') \<Rightarrow> v > v' \<or> (v = v' \<and> r \<ge> r'))
     (build_ranking res)"
proof -
  have "sorted (map rank_key (build_ranking res))"
    by (simp add: build_ranking_def)
  then have "sorted_wrt (\<lambda>a b. rank_key a \<le> rank_key b) (build_ranking res)"
    by (simp add: sorted_wrt_map)
  then show ?thesis
    by (simp add: rank_key_le)
qed

lemma build_ranking_stable:
  "filter (\<lambda>e. snd e = (v, r)) (build_ranking res) =
   filter (\<lambda>e. snd e = (v, r)) (map (\<lambda>(u, r). (u, validated r, reported r)) res)"
proof -
  have "(\<lambda>e::rank_entry. snd e = (v, r)) = (\<lambda>e. rank_key e = (- v, - r))"
    by (auto simp: rank_key_def fun_eq_iff)
  then show ?thesis
    by (simp add: build_ranking_def sort_key_stable)
qed

lemma finalize_round_found:
  assumes "dict_get rms room_id = Some room"
  shows "finalize_round rms room_id =
           (dict_set rms room_id
              (room\<lparr>last_ranking :=
                      Some (build_ranking (fill_missing (dict_keys (clients room)) (results room))),
                    start_time := None, results := []\<rparr>),
            [Broadcast (dict_values (clients room))
               (Round_end (build_ranking (fill_missing (dict_keys (clients room)) (results room))))])"
  using assms
  by (simp add: finalize_round_def broadcast_def dict_get_set Let_def dict_set_set)

subsection \<open>Finalization\<close>

text \<open>
  C8. When \<^verbatim>\<open>finalize_round\<close> runs on a room of the registry, every client without an
  entry in \<^verbatim>\<open>results\<close> gets the entry with reported 0, validated 0 and offset 0.0 and
  stands in the ranking that is broadcast as \<^verbatim>\<open>round_end\<close>; afterwards \<^verbatim>\<open>start_time\<close>
  is \<^verbatim>\<open>None\<close> and \<^verbatim>\<open>results\<close> is empty, the clients and the duration are as before, and
  the ranking is kept as \<^verbatim>\<open>last_ranking\<close>.
\<close>

theorem finalize_synthesizes_and_resets:
  assumes "dict_get rms room_id = Some room"
  shows "finalize_round rms room_id =
           (dict_set rms room_id
              (room\<lparr>last_ranking :=
                      Some (build_ranking (fill_missing (dict_keys (clients room)) (results room))),
                    start_time := None, results := []\<rparr>),
            [Broadcast (dict_values (clients room))
               (Round_end (build_ranking (fill_missing (dict_keys (clients room)) (results room))))])
         \<and> (\<forall>u \<in> set (dict_keys (clients room)).
               dict_get (results room) u = None \<longrightarrow>
                 dict_get (fill_missing (dict_keys (clients room)) (results room)) u =
                   Some \<lparr>reported = 0, validated = 0, offset = 0\<rparr>
                 \<and> (u, 0, 0) \<in> set (build_ranking
                                      (fill_missing (dict_keys (clients room)) (results room))))"
proof -
  have "dict_get (fill_missing (dict_keys (clients room)) (results room)) u =
          Some \<lparr>reported = 0, validated = 0, offset = 0\<rparr>
        \<and> (u, 0, 0) \<in> set (build_ranking (fill_missing (dict_keys (clients room)) (results room)))"
    if "u \<in> set (dict_keys (clients room))" and "dict_get (results room) u = None" for u
  proof -
    from that have g: "dict_get (fill_missing (dict_keys (clients room)) (results room)) u =
        Some zero_result"
      by (rule fill_missing_adds)
    from build_ranking_member [OF g] g show ?thesis
      by (simp add: zero_result_def)
  qed
  with finalize_round_found [OF assms] show ?thesis
    by blast
qed

theorem finalize_synthesizes_and_resets_witness:
  "finalize_round [(''R1'', round_room)] ''R1'' =
     ([(''R1'', round_room\<lparr>last_ranking := Some [(''bob'', 2, 4), (''alice'', 0, 0)],
                           start_time := None, results := []\<rparr>)],
      [Broadcast [1, 2] (Round_end [(''bob'', 2, 4), (''alice'', 0, 0)])])
   \<and> ''alice'' \<in> set (dict_keys (clients round_room))
   \<and> dict_get (results round_room) ''alice'' = None
   \<and> dict_get (fill_missing (dict_keys (clients round_room)) (results round_room)) ''alice'' =
       Some \<lparr>reported = 0, validated = 0, offset = 0\<rparr>"
  using finalize_synthesizes_and_resets [of "[(''R1'', round_room)]" "''R1''" round_room]
  by (simp add: dict_get_def dict_set_def dict_values_def dict_keys_def round_room_def
      build_ranking_def rank_key_def zero_result_def less_eq_prod_def)

text \<open>
  C6. The ranking that \<^verbatim>\<open>finalize_round\<close> broadcasts is built from all entries of the
  filled-in results \<open>res\<close>: it holds exactly those entries, it is ordered by validated
  descending and then reported descending, entries that agree on both keys stand in the
  order they have in \<open>res\<close> (insertion order), and any finalization of a room with the same
  client names and the same results broadcasts the same ranking.
\<close>

theorem ranking_sorted_stable:
  assumes "dict_get rms room_id = Some room"
      and "res = fill_missing (dict_keys (clients room)) (results room)"
  shows "snd (finalize_round rms room_id) =
           [Broadcast (dict_values (clients room)) (Round_end (build_ranking res))]
         \<and> mset (build_ranking res) = mset (map (\<lambda>(u, r). (u, validated r, reported r)) res)
         \<and> sorted_wrt
             (\<lambda>a b. case a of (u, v, r) \<Rightarrow> case b of (u', v', r') \<Rightarrow> v > v' \<or> (v = v' \<and> r \<ge> r'))
             (build_ranking res)
         \<and> (\<forall>v r. filter (\<lambda>e. snd e = (v, r)) (build_ranking res) =
              filter (\<lambda>e. snd e = (v, r)) (map (\<lambda>(u, r). (u, validated r, reported r)) res))
         \<and> (\<forall>rms2 room_id2 room2.
              dict_get rms2 room_id2 = Some room2
              \<and> dict_keys (clients room2) = dict_keys (clients room)
              \<and> results room2 = results room \<longrightarrow>
              snd (finalize_round rms2 room_id2) =
                [Broadcast (dict_values (clients room2)) (Round_end (build_ranking res))])"
  using finalize_round_found [OF assms(1)] build_ranking_sorted [of res]
    build_ranking_stable [of _ _ res] assms(2)
  by (auto simp: build_ranking_def finalize_round_found)

theorem ranking_sorted_stable_witness:
  "snd (finalize_round [(''R1'', ranked_room)] ''R1'') =
     [Broadcast [1, 2, 3, 4, 5]
        (Round_end [(''dan'', 7, 0), (''ben'', 2, 5), (''cat'', 2, 5), (''ann'', 2, 1),
                    (''eve'', 0, 0)])]
   \<and> filter (\<lambda>e. snd e = (2, 5))
       (build_ranking (fill_missing (dict_keys (clients ranked_room)) (results ranked_room))) =
     [(''ben'', 2, 5), (''cat'', 2, 5)]"
  using ranking_sorted_stable [of "[(''R1'', ranked_room)]" "''R1''" ranked_room
      "fill_missing (dict_keys (clients ranked_room)) (results ranked_room)"]
  by (simp add: dict_get_def dict_set_def dict_values_def dict_keys_def ranked_room_def
      build_ranking_def rank_key_def zero_result_def less_eq_prod_def)

text \<open>
  C1. \<^verbatim>\<open>finalize_round\<close> does not look at \<^verbatim>\<open>start_time\<close>: it returns early only when
  the room is missing, although \<^verbatim>\<open>end_round_after\<close> is documented to "finalize if not
  already done". In the run below alice joins room R1, starts a round and submits; she is
  the only member, so her submission finalizes the round and broadcasts the ranking with
  her score. When the round's timer fires afterwards, \<^verbatim>\<open>finalize_round\<close> runs again on the
  same round: it broadcasts a second \<^verbatim>\<open>round_end\<close>, with alice at zero, and overwrites
  \<^verbatim>\<open>last_ranking\<close> with it. \<^verbatim>\<open>start_time\<close> is \<^verbatim>\<open>None\<close> after both calls.
\<close>

theorem finalize_twice_two_round_end:
  "run no_str_conv []
     [Accept ''R1'' ''alice'' 1,
      Receive ''R1'' ''alice'' 1 95 request_start_msg,
      Receive ''R1'' ''alice'' 1 101 (result_msg 3 [94, - 10] 10),
      Timer ''R1''] =
   ([(''R1'', \<lparr>clients = [(''alice'', 1)], results = [], start_time = None, duration = 15,
               last_ranking = Some [(''alice'', 0, 0)]\<rparr>)],
    [Broadcast [1] (Presence [''alice'']),
     Broadcast [1] (Start 100 15),
     Create_task ''R1'' 117,
     Broadcast [1] (Partial_result ''alice'' 1),
     Broadcast [1] (Round_end [(''alice'', 1, 3)]),
     Broadcast [1] (Round_end [(''alice'', 0, 0)])])"
  by (simp add: server_defs)

subsection \<open>Round start\<close>

text \<open>
  C5. A \<^verbatim>\<open>request_start\<close> message read at clock time \<open>now\<close> sets \<^verbatim>\<open>start_time\<close> to
  \<open>now + 5\<close> and empties \<^verbatim>\<open>results\<close>, whatever round was active before; the round's window
  is then from \<open>now + 5\<close> to \<open>now + 5 + duration\<close>; the \<^verbatim>\<open>start\<close> message with that start
  time and the duration is broadcast to the room; and exactly one task is created, which
  finalizes the room at \<open>now + 5 + duration + 2\<close>.
\<close>

theorem request_start_sets_round:
  assumes "dict_get rms room_id = Some room"
      and "dict_get kvs ''type'' = Some (JStr ''request_start'')"
  shows "ws_message cv rms room_id username websocket now (Json (JObj kvs)) =
           (dict_set rms room_id (room\<lparr>start_time := Some (now + 5), results := []\<rparr>),
            [Broadcast (dict_values (clients room)) (Start (now + 5) (duration room)),
             Create_task room_id (now + 5 + of_int (duration room) + 2)],
            Continue)
         \<and> round_window (room\<lparr>start_time := Some (now + 5), results := []\<rparr>) =
           Some (now + 5, now + 5 + of_int (duration room))"
  using assms
  by (simp add: ws_message_def request_start_def round_window_def broadcast_def dict_get_set
      Let_def)

theorem request_start_sets_round_witness:
  "ws_message no_str_conv [(''R1'', round_room)] ''R1'' ''bob'' 2 200 request_start_msg =
     ([(''R1'', round_room\<lparr>start_time := Some 205, results := []\<rparr>)],
      [Broadcast [1, 2] (Start 205 15), Create_task ''R1'' 222], Continue)
   \<and> round_window (round_room\<lparr>start_time := Some 205, results := []\<rparr>) = Some (205, 220)"
  using request_start_sets_round [of "[(''R1'', round_room)]" "''R1''" round_room
      "[(''type'', JStr ''request_start'')]" no_str_conv "''bob''" 2 200]
  by (simp add: dict_get_def dict_set_def dict_values_def round_room_def request_start_msg_def)

subsection \<open>Result submission\<close>

text \<open>
  C7. A \<^verbatim>\<open>result\<close> message that arrives while \<^verbatim>\<open>start_time\<close> is \<^verbatim>\<open>None\<close> is answered
  with the error \<^verbatim>\<open>no active round\<close> on the sender's own socket only: nothing is
  broadcast, the registry of rooms (members, results, every other field) is returned
  unchanged, and the message loop goes on. The check comes before the fields are read, so
  this holds whatever else the message carries.
\<close>

theorem no_active_round_error_only:
  assumes "dict_get rms room_id = Some room"
      and "start_time room = None"
      and "dict_get kvs ''type'' = Some (JStr ''result'')"
  shows "ws_message cv rms room_id username websocket now (Json (JObj kvs)) =
           (rms, [Send_text websocket (Error ''no active round'')], Continue)"
  using assms by (simp add: ws_message_def submit_result_def round_window_def)

theorem no_active_round_error_only_witness:
  "dict_get [(''R1'', new_room\<lparr>clients := [(''alice'', 1)]\<rparr>)] ''R1'' =
     Some (new_room\<lparr>clients := [(''alice'', 1)]\<rparr>)
   \<and> start_time (new_room\<lparr>clients := [(''alice'', 1)]\<rparr>) = None
   \<and> ws_message no_str_conv [(''R1'', new_room\<lparr>clients := [(''alice'', 1)]\<rparr>)] ''R1'' ''alice'' 1 50
       (Json (JObj [(''type'', JStr ''result''), (''count'', JInt 4)])) =
     ([(''R1'', new_room\<lparr>clients := [(''alice'', 1)]\<rparr>)],
      [Send_text 1 (Error ''no active round'')], Continue)"
  using no_active_round_error_only [of "[(''R1'', new_room\<lparr>clients := [(''alice'', 1)]\<rparr>)]" "''R1''"
      "new_room\<lparr>clients := [(''alice'', 1)]\<rparr>" "[(''type'', JStr ''result''), (''count'', JInt 4)]"
      no_str_conv "''alice''" 1 50]
  by (simp add: dict_get_def new_room_def)



text \<open>
  C9. Whenever a submission is accepted (the fields convert and the result is stored), the
  stored \<^verbatim>\<open>validated\<close> is at least 0 and at most the number of submitted timestamps, and
  it does not depend on the reported count: any accepted message with the same offset and
  the same timestamps gets the same \<^verbatim>\<open>validated\<close>, whatever count it reports.
\<close>

theorem store_result_bounds:
  assumes "store_result cv room start end username msg = Inr (room', valid)"
  shows "\<exists>c off tj items.
           msg_get msg ''timestamps'' (Some (JArr [])) = Inr tj \<and> py_iter tj = Inr items
           \<and> 0 \<le> valid \<and> valid \<le> int (length items)
           \<and> room' = room\<lparr>results := dict_set (results room) username
                        \<lparr>reported = c, validated = valid, offset = off\<rparr>\<rparr>
           \<and> (\<forall>msg' room'' valid'.
                 msg_get msg' ''offset'' (Some (JFloat 0)) = msg_get msg ''offset'' (Some (JFloat 0))
                 \<and> msg_get msg' ''timestamps'' (Some (JArr [])) = Inr tj
                 \<and> store_result cv room start end username msg' = Inr (room'', valid')
                 \<longrightarrow> valid' = valid)"
  using assms
  by (auto simp: store_result_def split: sum.splits dest: count_valid_bounds)

theorem store_result_bounds_witness:
  "store_result no_str_conv round_room 100 115 ''alice''
     (JObj [(''type'', JStr ''result''), (''count'', JInt 999),
            (''timestamps'', JArr [JFloat 94, JFloat (- 10)]), (''offset'', JFloat 10)]) =
   Inr (round_room\<lparr>results := [(''bob'', \<lparr>reported = 4, validated = 2, offset = 0\<rparr>),
                                 (''alice'', \<lparr>reported = 999, validated = 1, offset = 10\<rparr>)]\<rparr>, 1)
   \<and> (\<exists>items. py_iter (Some (JArr [JFloat 94, JFloat (- 10)])) = Inr items
         \<and> (0::int) \<le> 1 \<and> 1 \<le> int (length items))
   \<and> store_result no_str_conv round_room 100 115 ''alice''
       (JObj [(''type'', JStr ''result''), (''count'', JInt 0),
              (''timestamps'', JArr [JFloat 94, JFloat (- 10)]), (''offset'', JFloat 10)]) =
     Inr (round_room\<lparr>results := [(''bob'', \<lparr>reported = 4, validated = 2, offset = 0\<rparr>),
                                   (''alice'', \<lparr>reported = 0, validated = 1, offset = 10\<rparr>)]\<rparr>, 1)"
  using store_result_bounds [of no_str_conv round_room 100 115 "''alice''"
      "JObj [(''type'', JStr ''result''), (''count'', JInt 999),
             (''timestamps'', JArr [JFloat 94, JFloat (- 10)]), (''offset'', JFloat 10)]"
      "round_room\<lparr>results := [(''bob'', \<lparr>reported = 4, validated = 2, offset = 0\<rparr>),
                                 (''alice'', \<lparr>reported = 999, validated = 1, offset = 10\<rparr>)]\<rparr>" 1]
  by (simp add: store_result_def dict_get_def dict_set_def round_room_def)

text \<open>
  C10. A \<^verbatim>\<open>result\<close> message with fields missing is not rejected. A missing \<^verbatim>\<open>count\<close>
  is read as 0, a missing \<^verbatim>\<open>offset\<close> as 0.0, a missing \<^verbatim>\<open>timestamps\<close> as the empty
  list, each on its own; without timestamps the validated count is 0. With all three
  missing and a round active, the handler stores the zero result under the sender's name,
  broadcasts \<^verbatim>\<open>partial_result\<close> with 0 and goes on, and the stored entry counts for early
  finalization: if the results are then as many as the clients, \<^verbatim>\<open>finalize_round\<close> runs
  at once.
\<close>

theorem missing_fields_default:
  assumes "dict_get rms room_id = Some room"
      and "start_time room = Some start"
      and "dict_get kvs ''type'' = Some (JStr ''result'')"
  shows "(dict_get kvs ''count'' = None \<longrightarrow>
            store_result cv room start end username (JObj kvs) =
            store_result cv room start end username (JObj (dict_set kvs ''count'' (JInt 0))))
       \<and> (dict_get kvs ''offset'' = None \<longrightarrow>
            store_result cv room start end username (JObj kvs) =
            store_result cv room start end username (JObj (dict_set kvs ''offset'' (JFloat 0))))
       \<and> (dict_get kvs ''timestamps'' = None \<longrightarrow>
            store_result cv room start end username (JObj kvs) =
            store_result cv room start end username (JObj (dict_set kvs ''timestamps'' (JArr []))))
       \<and> (\<forall>room' valid.
            dict_get kvs ''timestamps'' = None
            \<and> store_result cv room start end username (JObj kvs) = Inr (room', valid) \<longrightarrow>
            valid = 0)
       \<and> (dict_get kvs ''count'' = None \<and> dict_get kvs ''offset'' = None
            \<and> dict_get kvs ''timestamps'' = None \<longrightarrow>
          ws_message cv rms room_id username websocket now (Json (JObj kvs)) =
            (let room1 = room\<lparr>results := dict_set (results room) username
                                \<lparr>reported = 0, validated = 0, offset = 0\<rparr>\<rparr>;
                 rms1 = dict_set rms room_id room1;
                 sent = [Broadcast (dict_values (clients room)) (Partial_result username 0)]
             in if length (results room1) = length (clients room)
                then (fst (finalize_round rms1 room_id),
                      sent @ snd (finalize_round rms1 room_id), Continue)
                else (rms1, sent, Continue)))"
proof -
  have "store_result cv room start end username (JObj kvs) =
        store_result cv room start end username (JObj (dict_set kvs ''count'' (JInt 0)))"
    if "dict_get kvs ''count'' = None"
    using that by (simp add: store_result_def dict_get_set cong: sum.case_cong)
  moreover have "store_result cv room start end username (JObj kvs) =
        store_result cv room start end username (JObj (dict_set kvs ''offset'' (JFloat 0)))"
    if "dict_get kvs ''offset'' = None"
    using that by (simp add: store_result_def dict_get_set cong: sum.case_cong)
  moreover have "store_result cv room start end username (JObj kvs) =
        store_result cv room start end username (JObj (dict_set kvs ''timestamps'' (JArr [])))"
    if "dict_get kvs ''timestamps'' = None"
    using that by (simp add: store_result_def dict_get_set cong: sum.case_cong)
  moreover have "valid = 0"
    if "dict_get kvs ''timestamps'' = None"
       "store_result cv room start end username (JObj kvs) = Inr (room', valid)"
    for room' valid
    using that by (auto simp: store_result_def split: sum.splits)
  moreover have "ws_message cv rms room_id username websocket now (Json (JObj kvs)) =
            (let room1 = room\<lparr>results := dict_set (results room) username
                                \<lparr>reported = 0, validated = 0, offset = 0\<rparr>\<rparr>;
                 rms1 = dict_set rms room_id room1;
                 sent = [Broadcast (dict_values (clients room)) (Partial_result username 0)]
             in if length (results room1) = length (clients room)
                then (fst (finalize_round rms1 room_id),
                      sent @ snd (finalize_round rms1 room_id), Continue)
                else (rms1, sent, Continue))"
    if "dict_get kvs ''count'' = None" "dict_get kvs ''offset'' = None"
       "dict_get kvs ''timestamps'' = None"
    using that assms
    by (simp add: ws_message_def submit_result_def round_window_def store_result_def
        broadcast_def dict_get_set Let_def split: prod.splits)
  ultimately show ?thesis
    by blast
qed

theorem missing_fields_default_witness:
  "ws_message no_str_conv [(''R1'', round_room)] ''R1'' ''alice'' 1 101
     (Json (JObj [(''type'', JStr ''result'')])) =
   ([(''R1'', round_room\<lparr>last_ranking := Some [(''bob'', 2, 4), (''alice'', 0, 0)],
                         start_time := None, results := []\<rparr>)],
    [Broadcast [1, 2] (Partial_result ''alice'' 0),
     Broadcast [1, 2] (Round_end [(''bob'', 2, 4), (''alice'', 0, 0)])],
    Continue)"
  using missing_fields_default [of "[(''R1'', round_room)]" "''R1''" round_room 100
      "[(''type'', JStr ''result'')]" no_str_conv 115 "''alice''" 1 101]
  by (simp add: server_defs round_room_def)

subsection \<open>Messages that raise\<close>




subsection \<open>Results and members\<close>

text \<open>
  As long as the handler that submits is registered in \<^verbatim>\<open>clients\<close> under its username,
  every operation keeps the keys of \<^verbatim>\<open>results\<close> among the keys of \<^verbatim>\<open>clients\<close>, and with
  them \<open>length results \<le> length clients\<close> (\<open>keys_within_length\<close>).
\<close>

lemma ws_message_keeps_results_within_clients:
  assumes "dict_get rms room_id = Some room"
      and "distinct (dict_keys (results room))"
      and "set (dict_keys (results room)) \<subseteq> set (dict_keys (clients room))"
      and "username \<in> set (dict_keys (clients room))"
      and "ws_message cv rms room_id username websocket now raw = (rms', sent, out)"
  shows "\<exists>room'. dict_get rms' room_id = Some room'
           \<and> clients room' = clients room
           \<and> distinct (dict_keys (results room'))
           \<and> set (dict_keys (results room')) \<subseteq> set (dict_keys (clients room'))"
  using assms
  by (auto simp: ws_message_def submit_result_def request_start_def Let_def dict_get_set
      finalize_round_found dict_keys_set distinct_dict_set dict_keys_def [of "[]"]
      split: sum.splits option.splits if_splits prod.splits dest!: store_result_InrD)

lemma ws_accept_keeps_results_within_clients:
  assumes "dict_get rms room_id = Some room"
      and "set (dict_keys (results room)) \<subseteq> set (dict_keys (clients room))"
  shows "\<exists>room'. dict_get (fst (ws_accept rms room_id username websocket)) room_id = Some room'
           \<and> results room' = results room
           \<and> set (dict_keys (results room')) \<subseteq> set (dict_keys (clients room'))"
  using assms
  by (auto simp: ws_accept_def Let_def dict_get_set dict_keys_set)

lemma ws_disconnect_keeps_results_within_clients:
  assumes "dict_get rms room_id = Some room"
      and "distinct (dict_keys (results room))"
      and "set (dict_keys (results room)) \<subseteq> set (dict_keys (clients room))"
  shows "\<exists>room'. dict_get (fst (ws_disconnect rms room_id username)) room_id = Some room'
           \<and> distinct (dict_keys (results room'))
           \<and> set (dict_keys (results room')) \<subseteq> set (dict_keys (clients room'))"
  using assms
  by (auto simp: ws_disconnect_def Let_def dict_get_set dict_keys_pop distinct_dict_pop)

text \<open>
  C4. The disconnect handler pops its username from \<^verbatim>\<open>clients\<close> without checking that
  the registered socket is its own. In the run below alice connects on socket 1 and again
  on socket 2 (a reconnect that replaces the registered socket); then socket 1 closes, and
  its handler removes alice, the entry of socket 2, from \<^verbatim>\<open>clients\<close>. The handler of
  socket 2 is still running: it starts a round and submits, and its result is stored under
  alice. The room then has one result and no member, before any finalization: \<^verbatim>\<open>results\<close>
  has a key that is no client, and more entries than \<^verbatim>\<open>clients\<close>.
\<close>

theorem stale_handler_result_outside_clients:
  "run no_str_conv []
     [Accept ''R1'' ''alice'' 1,
      Accept ''R1'' ''alice'' 2,
      Disconnect ''R1'' ''alice'' 1,
      Receive ''R1'' ''alice'' 2 95 request_start_msg,
      Receive ''R1'' ''alice'' 2 101 (result_msg 3 [94, - 10] 10)] =
   ([(''R1'', \<lparr>clients = [],
               results = [(''alice'', \<lparr>reported = 3, validated = 1, offset = 10\<rparr>)],
               start_time = Some 100, duration = 15, last_ranking = None\<rparr>)],
    [Broadcast [1] (Presence [''alice'']),
     Broadcast [2] (Presence [''alice'']),
     Broadcast [] (Presence []),
     Broadcast [] (Start 100 15),
     Create_task ''R1'' 117,
     Broadcast [] (Partial_result ''alice'' 1)])"
  by (simp add: server_defs)

end
